theory Spec2Isabelle
  imports Main "HOL-Library.AList"
begin

section \<open>Data model\<close>

text \<open>
  The job record of \<^verbatim>\<open>pkg/apiserver/models/job.go\<close> and the request and configuration
  structs of the job handlers. Go strings are \<open>string\<close>, \<open>map[string]string\<close> is an
  association list, \<open>time.Time\<close> is a natural number whose zero is the zero time, and
  \<open>sql.NullTime\<close> is an option.
\<close>

type_synonym JobStatus = string
type_synonym time = nat
type_synonym strmap = "(string \<times> string) list"

record Flavour =
  flavour_Name :: string

record FileSystem =
  fs_Name :: string

record Conf =
  conf_Name :: string
  conf_Labels :: strmap
  conf_Annotations :: strmap
  conf_Env :: strmap
  conf_Port :: int
  conf_Image :: string
  conf_FileSystem :: FileSystem
  conf_ExtraFileSystem :: "FileSystem list"
  conf_Priority :: string
  conf_Flavour :: Flavour
  conf_Command :: string
  conf_Args :: "string list"
  conf_UserName :: string
  conf_QueueID :: string
  conf_ClusterID :: string
  conf_Namespace :: string
  conf_FS :: string

datatype error =
    ErrRecordNotFound
  | JobIDNotFoundError string
  | InvalidJobPriorityError string
  | ExtError string
  | Errorf string "fmtarg list"
and fmtarg =
    ArgS string
  | ArgE error
  | ArgNil

text \<open>
  \<open>RuntimeInfo\<close> is the in-memory field tagged \<^verbatim>\<open>gorm:"-"\<close>: \<open>None\<close> is \<open>nil\<close>, and a
  value is given by what \<^verbatim>\<open>json.Marshal\<close> makes of it (the text, or its error). The
  handlers of \<^verbatim>\<open>part_000\<close> also fill an \<open>ExtensionTemplate\<close> column.
\<close>

record Job =
  Pk :: nat
  ID :: string
  UserName :: string
  QueueID :: string
  Type :: string
  Config :: Conf
  RuntimeInfoJson :: string
  RuntimeInfo :: "(error + string) option"
  Status :: JobStatus
  Message :: string
  CreatedAt :: time
  ActivatedAt :: "time option"
  UpdatedAt :: time
  ExtensionTemplate :: string

subsection \<open>The schema package\<close>

text \<open>
  Modelled from the spec: the status and priority constants and \<open>IsImmutableJobStatus\<close> of
  package \<^verbatim>\<open>schema\<close> are not among the sources. The states are
  Init, Pending, Running, Succeeded, Failed, Terminated, the last three terminal; the
  priority labels are low, normal, high.
\<close>

definition StatusJobInit :: JobStatus where "StatusJobInit = ''init''"
definition StatusJobPending :: JobStatus where "StatusJobPending = ''pending''"
definition StatusJobRunning :: JobStatus where "StatusJobRunning = ''running''"
definition StatusJobSucceeded :: JobStatus where "StatusJobSucceeded = ''succeeded''"
definition StatusJobFailed :: JobStatus where "StatusJobFailed = ''failed''"
definition StatusJobTerminated :: JobStatus where "StatusJobTerminated = ''terminated''"

definition IsImmutableJobStatus :: "JobStatus \<Rightarrow> bool" where
  "IsImmutableJobStatus s =
     (s = StatusJobSucceeded \<or> s = StatusJobFailed \<or> s = StatusJobTerminated)"

definition EnvJobLowPriority :: string where "EnvJobLowPriority = ''low''"
definition EnvJobNormalPriority :: string where "EnvJobNormalPriority = ''normal''"
definition EnvJobHighPriority :: string where "EnvJobHighPriority = ''high''"

section \<open>The world the code runs in\<close>

text \<open>
  The job table holds the live rows in primary-key order (rows that were soft-deleted are
  not in it). Error-level log lines are kept as format string and arguments; Debug and
  Info lines are left out. The calls received by runtime services are recorded.
\<close>

record PFJob =
  pf_ID :: string
  pf_Type :: string
  pf_Conf :: Conf
  pf_Status :: JobStatus

datatype RuntimeSvc = RuntimeSvc string

datatype rtcall = RtDeleteJob RuntimeSvc PFJob | RtStopJob RuntimeSvc PFJob

record World =
  rows :: "Job list"
  next_pk :: nat
  rt_calls :: "rtcall list"
  logs :: "(string \<times> fmtarg list) list"

definition log_Errorf :: "string \<Rightarrow> fmtarg list \<Rightarrow> World \<Rightarrow> World" where
  "log_Errorf f args w = w\<lparr>logs := logs w @ [(f, args)]\<rparr>"

datatype dbop = DbCreate | DbFirst | DbUpdates | DbSave | DbFind | DbDelete

record Queue =
  queue_Name :: string
  queue_ClusterId :: string
  queue_Namespace :: string

record ClusterInfo =
  cluster_ID :: string

text \<open>
  What the code takes from outside: the clock, whether the database fails an operation,
  and the collaborators whose code is not among the sources, each as the function it
  computes (the YAML library, the queue, cluster and flavour lookups, the runtime
  registry and the runtime services, \<open>job.ValidateJob\<close>, \<open>api.NewJobInfo\<close>,
  \<open>uuid.GenerateID\<close>, \<open>common.ID\<close>), and the string constants of package
  \<^verbatim>\<open>schema\<close> that the handlers only pass along.
\<close>

record Env =
  now :: time
  db_fault :: "dbop \<Rightarrow> error option"
  JSONToYAML :: "string \<Rightarrow> error + string"
  GetQueueByID :: "string \<Rightarrow> error + Queue"
  GetClusterById :: "string \<Rightarrow> error + ClusterInfo"
  GetFlavour :: "string \<Rightarrow> error + Flavour"
  GetOrCreateRuntime :: "ClusterInfo \<Rightarrow> error + RuntimeSvc"
  NewJobInfo :: "Job \<Rightarrow> error + PFJob"
  rt_DeleteJob :: "RuntimeSvc \<Rightarrow> PFJob \<Rightarrow> error option"
  rt_StopJob :: "RuntimeSvc \<Rightarrow> PFJob \<Rightarrow> error option"
  ValidateJob :: "Conf \<Rightarrow> error option"
  GenerateID :: "string \<Rightarrow> string"
  common_ID :: "string \<Rightarrow> string \<Rightarrow> string"
  EnvJobType :: string
  TypePodJob :: string
  EnvJobQueueName :: string
  JobPrefix :: string

section \<open>The job repository (models/job.go)\<close>

definition BeforeSave :: "Job \<Rightarrow> error + Job" where
  "BeforeSave job =
     (case RuntimeInfo job of
        None \<Rightarrow> Inr job
      | Some (Inl e) \<Rightarrow> Inl e
      | Some (Inr infoJson) \<Rightarrow> Inr (job\<lparr>RuntimeInfoJson := infoJson\<rparr>))"

text \<open>
  \<open>db.Create\<close>: the hook runs, the row gets the next primary key, the creation and update
  times and the column default of \<open>runtime_info\<close>; the unique index on \<open>id\<close> refuses a
  second row with the same ID.
\<close>

definition models_CreateJob :: "Env \<Rightarrow> Job \<Rightarrow> World \<Rightarrow> error option \<times> World" where
  "models_CreateJob env job w =
     (case BeforeSave job of
        Inl e \<Rightarrow> (Some e, w)
      | Inr job1 \<Rightarrow>
          (case db_fault env DbCreate of
             Some e \<Rightarrow> (Some e, w)
           | None \<Rightarrow>
               if ID job1 \<in> set (map ID (rows w)) then (Some (ExtError ''duplicated key''), w)
               else
                 (None,
                  w\<lparr>rows := rows w @
                       [job1\<lparr>Pk := next_pk w,
                              RuntimeInfoJson :=
                                (if RuntimeInfoJson job1 = [] then ''{}'' else RuntimeInfoJson job1),
                              RuntimeInfo := None,
                              CreatedAt := now env,
                              UpdatedAt := now env\<rparr>],
                     next_pk := Suc (next_pk w)\<rparr>)))"

definition GetJobByID :: "Env \<Rightarrow> string \<Rightarrow> World \<Rightarrow> (error + Job) \<times> World" where
  "GetJobByID env jobID w =
     (case (case db_fault env DbFirst of
              Some e \<Rightarrow> Inl e
            | None \<Rightarrow>
                (case find (\<lambda>j. ID j = jobID) (rows w) of
                   None \<Rightarrow> Inl ErrRecordNotFound
                 | Some j \<Rightarrow> Inr j)) of
        Inl e \<Rightarrow> (Inl e, log_Errorf ''get job failed, err %v'' [ArgE e] w)
      | Inr job \<Rightarrow> (Inr job, w))"

definition GetJobStatusByID :: "Env \<Rightarrow> string \<Rightarrow> World \<Rightarrow> (error + JobStatus) \<times> World" where
  "GetJobStatusByID env jobID w =
     (case GetJobByID env jobID w of
        (Inl e, w1) \<Rightarrow> (Inl (JobIDNotFoundError jobID), w1)
      | (Inr job, w1) \<Rightarrow> (Inr (Status job), w1))"

text \<open>
  \<open>Updates(job)\<close> with a struct writes the fields of \<open>job\<close> that are not the zero value
  of their type, and the update time, into every row the \<open>Where\<close> selects.
\<close>

definition Conf_zero :: Conf where
  "Conf_zero =
     \<lparr>conf_Name = [], conf_Labels = [], conf_Annotations = [], conf_Env = [], conf_Port = 0,
      conf_Image = [], conf_FileSystem = \<lparr>fs_Name = []\<rparr>, conf_ExtraFileSystem = [],
      conf_Priority = [], conf_Flavour = \<lparr>flavour_Name = []\<rparr>, conf_Command = [],
      conf_Args = [], conf_UserName = [], conf_QueueID = [], conf_ClusterID = [],
      conf_Namespace = [], conf_FS = []\<rparr>"

definition updates_row :: "time \<Rightarrow> Job \<Rightarrow> Job \<Rightarrow> Job" where
  "updates_row t job row =
     row\<lparr>Pk := (if Pk job = 0 then Pk row else Pk job),
         ID := (if ID job = [] then ID row else ID job),
         UserName := (if UserName job = [] then UserName row else UserName job),
         QueueID := (if QueueID job = [] then QueueID row else QueueID job),
         Type := (if Type job = [] then Type row else Type job),
         Config := (if Config job = Conf_zero then Config row else Config job),
         RuntimeInfoJson :=
           (if RuntimeInfoJson job = [] then RuntimeInfoJson row else RuntimeInfoJson job),
         Status := (if Status job = [] then Status row else Status job),
         Message := (if Message job = [] then Message row else Message job),
         CreatedAt := (if CreatedAt job = 0 then CreatedAt row else CreatedAt job),
         ActivatedAt := (if ActivatedAt job = None then ActivatedAt row else ActivatedAt job),
         UpdatedAt := t,
         ExtensionTemplate :=
           (if ExtensionTemplate job = [] then ExtensionTemplate row else ExtensionTemplate job)\<rparr>"

definition db_Updates :: "Env \<Rightarrow> string \<Rightarrow> Job \<Rightarrow> World \<Rightarrow> error option \<times> World" where
  "db_Updates env jobId job w =
     (case db_fault env DbUpdates of
        Some e \<Rightarrow> (Some e, w)
      | None \<Rightarrow>
          (None,
           w\<lparr>rows := map (\<lambda>row. if ID row = jobId then updates_row (now env) job row else row)
                        (rows w)\<rparr>))"

definition UpdateJobStatus ::
  "Env \<Rightarrow> string \<Rightarrow> string \<Rightarrow> JobStatus \<Rightarrow> World \<Rightarrow> error option \<times> World" where
  "UpdateJobStatus env jobId errMessage jobStatus w =
     (case GetJobByID env jobId w of
        (Inl e, w1) \<Rightarrow> (Some (JobIDNotFoundError jobId), w1)
      | (Inr job, w1) \<Rightarrow>
          (let job1 = (if jobStatus \<noteq> [] \<and> \<not> IsImmutableJobStatus (Status job)
                       then job\<lparr>Status := jobStatus\<rparr> else job);
               job2 = (if errMessage \<noteq> [] then job1\<lparr>Message := errMessage\<rparr> else job1)
           in (case db_Updates env jobId job2 w1 of
                 (Some e, w2) \<Rightarrow> (Some e, w2)
               | (None, w2) \<Rightarrow> (None, w2))))"

text \<open>
  \<open>Save(&job)\<close> of a record with a primary key: the hook runs, then every column of the
  row with that key and the ID of the \<open>Where\<close> is written from \<open>job\<close>, with the update
  time. When the save fails the code returns \<open>err\<close>, which is the \<open>nil\<close> left by the
  lookup.
\<close>

definition db_Save :: "Env \<Rightarrow> string \<Rightarrow> Job \<Rightarrow> World \<Rightarrow> error option \<times> World" where
  "db_Save env jobID job w =
     (case BeforeSave job of
        Inl e \<Rightarrow> (Some e, w)
      | Inr job1 \<Rightarrow>
          (case db_fault env DbSave of
             Some e \<Rightarrow> (Some e, w)
           | None \<Rightarrow>
               (None,
                w\<lparr>rows := map (\<lambda>row. if ID row = jobID \<and> Pk row = Pk job1
                                     then job1\<lparr>RuntimeInfo := None, UpdatedAt := now env\<rparr>
                                     else row)
                             (rows w)\<rparr>)))"

definition UpdateJob ::
  "Env \<Rightarrow> string \<Rightarrow> JobStatus \<Rightarrow> (error + string) option \<Rightarrow> string \<Rightarrow> World
     \<Rightarrow> (JobStatus \<times> error option) \<times> World" where
  "UpdateJob env jobID status info message w =
     (case GetJobByID env jobID w of
        (Inl e, w1) \<Rightarrow> (([], Some (JobIDNotFoundError jobID)), w1)
      | (Inr job, w1) \<Rightarrow>
          (let job1 = (if status \<noteq> [] \<and> \<not> IsImmutableJobStatus (Status job)
                       then job\<lparr>Status := status\<rparr> else job);
               job2 = (case info of None \<Rightarrow> job1 | Some i \<Rightarrow> job1\<lparr>RuntimeInfo := Some i\<rparr>);
               job3 = (if message \<noteq> [] then job2\<lparr>Message := message\<rparr> else job2);
               job4 = (if status = StatusJobRunning
                       then job3\<lparr>ActivatedAt := Some (now env)\<rparr> else job3)
           in (case db_Save env jobID job4 w1 of
                 (Some e, w2) \<Rightarrow>
                   (([], None), log_Errorf ''update job failed, err %v'' [ArgNil] w2)
               | (None, w2) \<Rightarrow> ((Status job4, None), w2))))"

text \<open>
  The SQL predicate \<open>text LIKE pattern\<close>: \<open>%\<close> stands for any run of characters, \<open>_\<close>
  for any one character, every other character for itself (no \<open>ESCAPE\<close> clause, binary
  comparison).
\<close>

fun sql_like :: "string \<Rightarrow> string \<Rightarrow> bool" where
  "sql_like [] [] = True"
| "sql_like [] (c # cs) = False"
| "sql_like (p # ps) [] = (p = CHR ''%'' \<and> sql_like ps [])"
| "sql_like (p # ps) (c # cs) =
     (if p = CHR ''%'' then sql_like ps (c # cs) \<or> sql_like (p # ps) cs
      else if p = CHR ''_'' then sql_like ps cs
      else p = c \<and> sql_like ps cs)"

definition GetJobsByRunID ::
  "Env \<Rightarrow> string \<Rightarrow> string \<Rightarrow> World \<Rightarrow> (error + Job list) \<times> World" where
  "GetJobsByRunID env runID jobID w =
     (case db_fault env DbFind of
        Some e \<Rightarrow>
          (Inl e, log_Errorf ''get jobs by run[%s] failed. error : %s '' [ArgS runID, ArgE e] w)
      | None \<Rightarrow>
          (Inr (filter (\<lambda>j. sql_like (''job-'' @ runID @ ''-%'') (ID j)
                             \<and> (jobID = [] \<or> ID j = jobID))
                 (rows w)),
           w))"

section \<open>The job handlers (part_000)\<close>

record SchedulingPolicy =
  sp_QueueID :: string
  sp_Priority :: string

record CommonJobInfo =
  ci_ID :: string
  ci_Name :: string
  ci_Labels :: strmap
  ci_Annotations :: strmap
  ci_SchedulingPolicy :: SchedulingPolicy
  ci_UserName :: string

record JobSpec =
  js_Flavour :: Flavour
  js_FileSystem :: FileSystem
  js_ExtraFileSystems :: "FileSystem list"
  js_Image :: string
  js_Env :: strmap
  js_Command :: string
  js_Args :: "string list"
  js_Port :: int
  js_ExtensionTemplate :: string

record CreateSingleJobRequest =
  req_CommonJobInfo :: CommonJobInfo
  req_JobSpec :: JobSpec

record CreateJobResponse =
  resp_ID :: string

text \<open>
  The error codes \<open>common.JobNotFound\<close> and \<open>common.InternalError\<close> are written as
  their names.
\<close>

record RequestContext =
  ErrorCode :: string

text \<open>
  Modelled from the spec: the methods of \<^verbatim>\<open>schema.Conf\<close> are not among the sources. The
  capability contract is get/set of name, env, queue ID, cluster ID, namespace, flavour,
  priority, user name and filesystem: each setter stores what its getter returns, and the
  job kind is the marker stored in the environment.
\<close>

definition SetEnv :: "string \<Rightarrow> string \<Rightarrow> Conf \<Rightarrow> Conf" where
  "SetEnv name val c = c\<lparr>conf_Env := AList.update name val (conf_Env c)\<rparr>"

definition SetUserName :: "string \<Rightarrow> Conf \<Rightarrow> Conf" where
  "SetUserName u c = c\<lparr>conf_UserName := u\<rparr>"

definition SetQueueID :: "string \<Rightarrow> Conf \<Rightarrow> Conf" where
  "SetQueueID q c = c\<lparr>conf_QueueID := q\<rparr>"

definition SetClusterID :: "string \<Rightarrow> Conf \<Rightarrow> Conf" where
  "SetClusterID cl c = c\<lparr>conf_ClusterID := cl\<rparr>"

definition SetNamespace :: "string \<Rightarrow> Conf \<Rightarrow> Conf" where
  "SetNamespace ns c = c\<lparr>conf_Namespace := ns\<rparr>"

definition SetFlavour :: "string \<Rightarrow> Conf \<Rightarrow> Conf" where
  "SetFlavour n c = c\<lparr>conf_Flavour := (conf_Flavour c)\<lparr>flavour_Name := n\<rparr>\<rparr>"

definition SetFS :: "string \<Rightarrow> Conf \<Rightarrow> Conf" where
  "SetFS fsID c = c\<lparr>conf_FS := fsID\<rparr>"

definition GetPriority :: "Conf \<Rightarrow> string" where
  "GetPriority c = conf_Priority c"

definition SetPriority :: "string \<Rightarrow> Conf \<Rightarrow> Conf" where
  "SetPriority p c = c\<lparr>conf_Priority := p\<rparr>"

definition conf_Type :: "Env \<Rightarrow> Conf \<Rightarrow> string" where
  "conf_Type env c = (case map_of (conf_Env c) (EnvJobType env) of None \<Rightarrow> [] | Some t \<Rightarrow> t)"

text \<open>
  Modelled from the spec: \<^verbatim>\<open>models.DeleteJob\<close> is not among the sources. The repository
  contract is \<open>Delete(id) -> error\<close>, which removes the record.
\<close>

definition models_DeleteJob :: "Env \<Rightarrow> string \<Rightarrow> World \<Rightarrow> error option \<times> World" where
  "models_DeleteJob env jobID w =
     (case db_fault env DbDelete of
        Some e \<Rightarrow> (Some e, w)
      | None \<Rightarrow> (None, w\<lparr>rows := filter (\<lambda>j. ID j \<noteq> jobID) (rows w)\<rparr>))"

definition patchEnvs :: "Env \<Rightarrow> Conf \<Rightarrow> CommonJobInfo \<Rightarrow> World \<Rightarrow> (error + Conf) \<times> World" where
  "patchEnvs env conf commonJobInfo w =
     (let conf1 = conf\<lparr>conf_Labels := ci_Labels commonJobInfo,
                        conf_Annotations := ci_Annotations commonJobInfo\<rparr>;
          conf2 = SetEnv (EnvJobType env) (TypePodJob env) conf1;
          conf3 = SetUserName (ci_UserName commonJobInfo) conf2;
          queueID = sp_QueueID (ci_SchedulingPolicy commonJobInfo)
      in (case GetQueueByID env queueID of
            Inl err \<Rightarrow>
              (Inl (if err = ErrRecordNotFound
                    then Errorf ''queue not found by id %s'' [ArgS queueID] else err),
               log_Errorf ''Get queue by id failed when creating job %s failed, err=%v''
                 [ArgS (ci_Name commonJobInfo), ArgE err] w)
          | Inr queue \<Rightarrow>
              (let conf4 = SetQueueID queueID conf3;
                   conf5 = SetEnv (EnvJobQueueName env) (queue_Name queue) conf4;
                   conf6 = (if sp_Priority (ci_SchedulingPolicy commonJobInfo) \<noteq> []
                            then conf5\<lparr>conf_Priority :=
                                         sp_Priority (ci_SchedulingPolicy commonJobInfo)\<rparr>
                            else conf5);
                   conf7 = SetClusterID (queue_ClusterId queue) conf6;
                   conf8 = SetNamespace (queue_Namespace queue) conf7
               in (Inr conf8, w))))"

definition patchSingleEnvs ::
  "Env \<Rightarrow> Conf \<Rightarrow> CreateSingleJobRequest \<Rightarrow> World \<Rightarrow> (error + Conf) \<times> World" where
  "patchSingleEnvs env conf request w =
     (case patchEnvs env conf (req_CommonJobInfo request) w of
        (Inl err, w1) \<Rightarrow>
          (Inl err, log_Errorf ''patch commonInfo of single job failed, err=%v'' [ArgE err] w1)
      | (Inr conf1, w1) \<Rightarrow>
          (let spec = req_JobSpec request;
               conf2 = conf1\<lparr>conf_ExtraFileSystem := js_ExtraFileSystems spec,
                             conf_Command := js_Command spec,
                             conf_Image := js_Image spec,
                             conf_Port := js_Port spec,
                             conf_Args := js_Args spec\<rparr>
           in (case GetFlavour env (flavour_Name (js_Flavour spec)) of
                 Inl err \<Rightarrow>
                   (Inl err,
                    log_Errorf
                      ''Get flavour by name %s failed when creating job %s failed, err=%v''
                      [ArgS (flavour_Name (js_Flavour spec)),
                       ArgS (ci_Name (req_CommonJobInfo request)), ArgE err] w1)
               | Inr flavour \<Rightarrow>
                   (let conf3 = SetFlavour (flavour_Name flavour) conf2;
                        fsID = common_ID env (ci_UserName (req_CommonJobInfo request))
                                 (fs_Name (js_FileSystem spec));
                        conf4 = SetFS fsID conf3
                    in (Inr conf4, w1)))))"

text \<open>\<open>checkPriority\<close> returns its error and the configuration as the call leaves it.\<close>

definition checkPriority :: "Conf \<Rightarrow> error option \<times> Conf" where
  "checkPriority conf =
     (let priority = GetPriority conf
      in if length priority = 0 then (None, SetPriority EnvJobNormalPriority conf)
         else if priority \<noteq> EnvJobLowPriority \<and> priority \<noteq> EnvJobNormalPriority
                   \<and> priority \<noteq> EnvJobHighPriority
              then (Some (InvalidJobPriorityError priority), conf)
              else (None, conf))"

definition CreateJob ::
  "Env \<Rightarrow> Conf \<Rightarrow> string \<Rightarrow> string \<Rightarrow> World \<Rightarrow> (error + string) \<times> World" where
  "CreateJob env conf jobID jobTemplate w =
     (case ValidateJob env conf of
        Some err \<Rightarrow> (Inl err, w)
      | None \<Rightarrow>
          (case checkPriority conf of
             (Some err, conf1) \<Rightarrow>
               (Inl err, log_Errorf ''check priority failed, err=%v'' [ArgE err] w)
           | (None, jobConf) \<Rightarrow>
               (let jobID1 = (if jobID = [] then GenerateID env (JobPrefix env) else jobID);
                    jobInfo =
                      \<lparr>Pk = 0, ID = jobID1, UserName = conf_UserName jobConf,
                       QueueID = conf_QueueID jobConf, Type = conf_Type env jobConf,
                       Config = jobConf, RuntimeInfoJson = [], RuntimeInfo = None,
                       Status = StatusJobInit, Message = [], CreatedAt = 0,
                       ActivatedAt = None, UpdatedAt = 0, ExtensionTemplate = jobTemplate\<rparr>
                in (case models_CreateJob env jobInfo w of
                      (Some err, w1) \<Rightarrow>
                        (Inl (Errorf ''create job[%s] in database faield, err: %v''
                                [ArgS (conf_Name jobConf), ArgE err]),
                         log_Errorf ''create job[%s] in database faield, err: %v''
                           [ArgS (conf_Name jobConf), ArgE err] w1)
                    | (None, w1) \<Rightarrow> (Inr jobID1, w1)))))"

definition CreateSingleJob ::
  "Env \<Rightarrow> CreateSingleJobRequest \<Rightarrow> World \<Rightarrow> (error + CreateJobResponse) \<times> World" where
  "CreateSingleJob env request w =
     (let info = req_CommonJobInfo request; spec = req_JobSpec request
      in (case (if js_ExtensionTemplate spec \<noteq> []
                then JSONToYAML env (js_ExtensionTemplate spec) else Inr []) of
            Inl err \<Rightarrow>
              (Inl err,
               log_Errorf ''Failed to parse extension template to yaml: %v'' [ArgE err] w)
          | Inr extensionTemplate \<Rightarrow>
              (let conf = Conf_zero\<lparr>conf_Name := ci_Name info,
                                     conf_Labels := ci_Labels info,
                                     conf_Annotations := ci_Annotations info,
                                     conf_Env := js_Env spec,
                                     conf_Port := js_Port spec,
                                     conf_Image := js_Image spec,
                                     conf_FileSystem := js_FileSystem spec,
                                     conf_ExtraFileSystem := js_ExtraFileSystems spec,
                                     conf_Priority := sp_Priority (ci_SchedulingPolicy info),
                                     conf_Flavour := js_Flavour spec\<rparr>
               in (case patchSingleEnvs env conf request w of
                     (Inl err, w1) \<Rightarrow>
                       (Inl err,
                        log_Errorf ''patch envs when creating job %s failed, err=%v''
                          [ArgS (ci_Name info), ArgE err] w1)
                   | (Inr conf1, w1) \<Rightarrow>
                       (case CreateJob env conf1 (ci_ID info) extensionTemplate w1 of
                          (Inl err, w2) \<Rightarrow>
                            (Inl err,
                             log_Errorf ''failed to create job %s, err=%v''
                               [ArgS (ci_Name info), ArgE err] w2)
                        | (Inr jid, w2) \<Rightarrow> (Inr \<lparr>resp_ID = jid\<rparr>, w2))))))"

definition CheckPermission :: "RequestContext \<Rightarrow> error option" where
  "CheckPermission ctx = None"

definition getRuntimeByQueue ::
  "Env \<Rightarrow> RequestContext \<Rightarrow> string \<Rightarrow> World \<Rightarrow> (error + RuntimeSvc) \<times> RequestContext \<times> World"
  where
  "getRuntimeByQueue env ctx queueID w =
     (case GetQueueByID env queueID of
        Inl err \<Rightarrow> (Inl err, ctx, log_Errorf ''get queue for job failed, err: %v'' [ArgE err] w)
      | Inr queue \<Rightarrow>
          (case GetClusterById env (queue_ClusterId queue) of
             Inl err \<Rightarrow>
               (Inl err, ctx,
                log_Errorf ''get clusterInfo by id %s failed. error: %s''
                  [ArgS (queue_ClusterId queue), ArgE err] w)
           | Inr clusterInfo \<Rightarrow>
               (case GetOrCreateRuntime env clusterInfo of
                  Inl err \<Rightarrow>
                    (Inl (Errorf ''delete queue failed'' []),
                     ctx\<lparr>ErrorCode := ''InternalError''\<rparr>,
                     log_Errorf ''get or create runtime failed, err: %v'' [ArgE err] w)
                | Inr runtimeSvc \<Rightarrow> (Inr runtimeSvc, ctx, w))))"

definition DeleteJob ::
  "Env \<Rightarrow> RequestContext \<Rightarrow> string \<Rightarrow> World \<Rightarrow> error option \<times> RequestContext \<times> World" where
  "DeleteJob env ctx jobID w =
     (case CheckPermission ctx of
        Some err \<Rightarrow> (Some err, ctx, w)
      | None \<Rightarrow>
          (case GetJobByID env jobID w of
             (Inl err, w1) \<Rightarrow>
               (Some err, ctx\<lparr>ErrorCode := ''JobNotFound''\<rparr>,
                log_Errorf ''get job from database failed, err: %v'' [ArgE err] w1)
           | (Inr job, w1) \<Rightarrow>
               (case getRuntimeByQueue env ctx (QueueID job) w1 of
                  (Inl err, ctx1, w2) \<Rightarrow>
                    (Some err, ctx1,
                     log_Errorf ''get runtime by queue failed, err: %v'' [ArgE err] w2)
                | (Inr runtimeSvc, ctx1, w2) \<Rightarrow>
                    (case NewJobInfo env job of
                       Inl err \<Rightarrow> (Some err, ctx1, w2)
                     | Inr pfjob \<Rightarrow>
                         (let w3 = w2\<lparr>rt_calls := rt_calls w2 @ [RtDeleteJob runtimeSvc pfjob]\<rparr>
                          in (case rt_DeleteJob env runtimeSvc pfjob of
                                Some err \<Rightarrow>
                                  (Some err, ctx1,
                                   log_Errorf ''delete job %s from cluster failed, err: %v''
                                     [ArgS jobID, ArgE err] w3)
                              | None \<Rightarrow>
                                  (case models_DeleteJob env jobID w3 of
                                     (Some err, w4) \<Rightarrow>
                                       (Some err, ctx1,
                                        log_Errorf ''delete job %s from cluster failed, err: %v''
                                          [ArgS jobID, ArgE err] w4)
                                   | (None, w4) \<Rightarrow> (None, ctx1, w4))))))))"

definition StopJob ::
  "Env \<Rightarrow> RequestContext \<Rightarrow> string \<Rightarrow> World \<Rightarrow> error option \<times> RequestContext \<times> World" where
  "StopJob env ctx jobID w =
     (case CheckPermission ctx of
        Some err \<Rightarrow> (Some err, ctx, w)
      | None \<Rightarrow>
          (case GetJobByID env jobID w of
             (Inl err, w1) \<Rightarrow>
               (Some err, ctx\<lparr>ErrorCode := ''JobNotFound''\<rparr>,
                log_Errorf ''get job %s from database failed, err: %v'' [ArgS jobID, ArgE err] w1)
           | (Inr job, w1) \<Rightarrow>
               if IsImmutableJobStatus (Status job)
               then (Some (Errorf ''job %s status is already %s, and job cannot be stopped''
                             [ArgS jobID, ArgS (Status job)]),
                     ctx,
                     log_Errorf ''job %s status is already %s, and job cannot be stopped''
                       [ArgS jobID, ArgS (Status job)] w1)
               else
                 (case getRuntimeByQueue env ctx (QueueID job) w1 of
                    (Inl err, ctx1, w2) \<Rightarrow>
                      (Some err, ctx1,
                       log_Errorf ''get runtime by queue failed, err: %v'' [ArgE err] w2)
                  | (Inr runtimeSvc, ctx1, w2) \<Rightarrow>
                      (case NewJobInfo env job of
                         Inl err \<Rightarrow> (Some err, ctx1, w2)
                       | Inr pfjob \<Rightarrow>
                           (let w3 = w2\<lparr>rt_calls := rt_calls w2 @ [RtStopJob runtimeSvc pfjob]\<rparr>
                            in (case rt_StopJob env runtimeSvc pfjob of
                                  Some err \<Rightarrow>
                                    (Some err, ctx1,
                                     log_Errorf ''delete job %s from cluster failed, err: %v''
                                       [ArgS (ID job), ArgE err] w3)
                                | None \<Rightarrow> (None, ctx1, w3)))))))"

section \<open>An example environment and table\<close>

text \<open>
  A database that does not fail, a queue \<open>q1\<close> on cluster \<open>c1\<close>, a validator that wants
  an image, and a table of three jobs: one succeeded, one running, one in its initial
  state. The theorems below are instantiated on them.
\<close>

definition queue1 :: Queue where
  "queue1 = \<lparr>queue_Name = ''default-queue'', queue_ClusterId = ''c1'', queue_Namespace = ''ns1''\<rparr>"

definition env_ok :: Env where
  "env_ok =
     \<lparr>now = 100,
      db_fault = (\<lambda>_. None),
      JSONToYAML = (\<lambda>s. if s = ''[1]'' then Inr ''- 1'' else Inl (ExtError ''yaml: invalid'')),
      GetQueueByID = (\<lambda>q. if q = ''q1'' then Inr queue1 else Inl ErrRecordNotFound),
      GetClusterById =
        (\<lambda>c. if c = ''c1'' then Inr \<lparr>cluster_ID = ''c1''\<rparr> else Inl ErrRecordNotFound),
      GetFlavour =
        (\<lambda>n. if n = ''flavour1'' then Inr \<lparr>flavour_Name = ''flavour1''\<rparr>
             else Inl ErrRecordNotFound),
      GetOrCreateRuntime = (\<lambda>c. Inr (RuntimeSvc (cluster_ID c))),
      NewJobInfo =
        (\<lambda>j. Inr \<lparr>pf_ID = ID j, pf_Type = Type j, pf_Conf = Config j, pf_Status = Status j\<rparr>),
      rt_DeleteJob = (\<lambda>_ _. None),
      rt_StopJob = (\<lambda>_ _. None),
      ValidateJob =
        (\<lambda>c. if conf_Image c = [] then Some (ExtError ''job image is empty'') else None),
      GenerateID = (\<lambda>p. p @ ''-000001''),
      common_ID = (\<lambda>u n. ''fs-'' @ u @ ''-'' @ n),
      EnvJobType = ''PF_JOB_TYPE'',
      TypePodJob = ''pod'',
      EnvJobQueueName = ''PF_JOB_QUEUE_NAME'',
      JobPrefix = ''job''\<rparr>"

definition env_rt_fail :: Env where
  "env_rt_fail = env_ok\<lparr>rt_DeleteJob := (\<lambda>_ _. Some (ExtError ''connection refused''))\<rparr>"

definition env_db_fail :: Env where
  "env_db_fail =
     env_ok\<lparr>db_fault := (\<lambda>op. if op = DbDelete then Some (ExtError ''connection refused'')
                                else None)\<rparr>"

definition ctx0 :: RequestContext where
  "ctx0 = \<lparr>ErrorCode = []\<rparr>"

definition conf1 :: Conf where
  "conf1 =
     Conf_zero\<lparr>conf_Name := ''job1'', conf_Image := ''busybox'', conf_Priority := ''normal'',
               conf_Flavour := \<lparr>flavour_Name = ''flavour1''\<rparr>, conf_UserName := ''root'',
               conf_QueueID := ''q1'', conf_ClusterID := ''c1'', conf_Namespace := ''ns1''\<rparr>"

definition conf_urgent :: Conf where
  "conf_urgent = conf1\<lparr>conf_Priority := ''urgent''\<rparr>"

definition conf_bad :: Conf where
  "conf_bad = conf1\<lparr>conf_Image := [], conf_Priority := ''urgent''\<rparr>"

definition job_done :: Job where
  "job_done =
     \<lparr>Pk = 1, ID = ''job-r1-a'', UserName = ''root'', QueueID = ''q1'', Type = ''pod'',
      Config = conf1, RuntimeInfoJson = ''{}'', RuntimeInfo = None,
      Status = StatusJobSucceeded, Message = ''finished'', CreatedAt = 10,
      ActivatedAt = Some 20, UpdatedAt = 30, ExtensionTemplate = []\<rparr>"

definition job_run :: Job where
  "job_run = job_done\<lparr>Pk := 2, ID := ''job-r1-b'', Status := StatusJobRunning, Message := []\<rparr>"

definition job_abc :: Job where
  "job_abc = job_done\<lparr>Pk := 3, ID := ''job-abc-1'', Status := StatusJobInit, Message := [],
               ActivatedAt := None\<rparr>"

definition world1 :: World where
  "world1 = \<lparr>rows = [job_done, job_run, job_abc], next_pk = 4, rt_calls = [], logs = []\<rparr>"

definition request1 :: CreateSingleJobRequest where
  "request1 =
     \<lparr>req_CommonJobInfo =
        \<lparr>ci_ID = [], ci_Name = ''job1'', ci_Labels = [], ci_Annotations = [],
         ci_SchedulingPolicy = \<lparr>sp_QueueID = ''q1'', sp_Priority = []\<rparr>,
         ci_UserName = ''root''\<rparr>,
      req_JobSpec =
        \<lparr>js_Flavour = \<lparr>flavour_Name = ''flavour1''\<rparr>, js_FileSystem = \<lparr>fs_Name = ''testfs''\<rparr>,
         js_ExtraFileSystems = [], js_Image = ''busybox'', js_Env = [], js_Command = ''sleep 1'',
         js_Args = [], js_Port = 8080, js_ExtensionTemplate = ''[1]''\<rparr>\<rparr>"

definition request_badtmpl :: CreateSingleJobRequest where
  "request_badtmpl =
     request1\<lparr>req_JobSpec := (req_JobSpec request1)\<lparr>js_ExtensionTemplate := ''{''\<rparr>\<rparr>"

definition request_notmpl :: CreateSingleJobRequest where
  "request_notmpl =
     request1\<lparr>req_JobSpec := (req_JobSpec request1)\<lparr>js_ExtensionTemplate := []\<rparr>\<rparr>"

definition pf_done :: PFJob where
  "pf_done = \<lparr>pf_ID = ''job-r1-a'', pf_Type = ''pod'', pf_Conf = conf1,
              pf_Status = StatusJobSucceeded\<rparr>"

definition pf_run :: PFJob where
  "pf_run = \<lparr>pf_ID = ''job-r1-b'', pf_Type = ''pod'', pf_Conf = conf1,
             pf_Status = StatusJobRunning\<rparr>"

definition conf_nopriority :: Conf where
  "conf_nopriority = conf1\<lparr>conf_Priority := []\<rparr>"

lemmas example_defs = env_ok_def ctx0_def queue1_def conf1_def job_done_def job_run_def
  job_abc_def world1_def Conf_zero_def StatusJobInit_def StatusJobRunning_def
  StatusJobSucceeded_def StatusJobFailed_def StatusJobTerminated_def IsImmutableJobStatus_def
  EnvJobLowPriority_def EnvJobNormalPriority_def EnvJobHighPriority_def

section \<open>Facts about the repository\<close>

lemma GetJobByID_Inr:
  assumes "fst (GetJobByID env jobID w) = Inr job"
  shows "GetJobByID env jobID w = (Inr job, w)"
    and "find (\<lambda>j. ID j = jobID) (rows w) = Some job"
    and "db_fault env DbFirst = None"
  using assms by (auto simp: GetJobByID_def split: option.splits)

lemma models_CreateJob_distinct:
  assumes "distinct (map ID (rows w))"
  shows "distinct (map ID (rows (snd (models_CreateJob env job w))))"
  using assms
  by (auto simp: models_CreateJob_def BeforeSave_def split: option.splits sum.splits)

lemma find_unique:
  assumes "find (\<lambda>j. ID j = jobID) rs = Some job" "distinct (map ID rs)"
    "row \<in> set rs" "ID row = jobID"
  shows "row = job"
proof -
  from assms(1) have "job \<in> set rs" "ID job = jobID"
    by (auto simp: find_Some_iff)
  moreover from assms(2) have "inj_on ID (set rs)" by (simp add: distinct_map)
  ultimately show ?thesis using assms(3,4) by (auto dest: inj_onD)
qed

lemma updates_row_Message:
  "updates_row t (row\<lparr>Message := m\<rparr>) row =
     row\<lparr>Message := (if m = [] then Message row else m), UpdatedAt := t\<rparr>"
  by (simp add: updates_row_def)

lemma updates_row_same: "updates_row t row row = row\<lparr>UpdatedAt := t\<rparr>"
  by (simp add: updates_row_def)

text \<open>
  Claim C1, amended. For a job whose stored status is terminal (the lookup finds it, IDs
  are unique, the database accepts the update), \<open>UpdateJobStatus\<close> returns no error;
  the stored status stays as it was, the stored message is replaced by a non-empty
  \<open>errMessage\<close> and kept for an empty one, and only the update time changes besides.
\<close>

theorem UpdateJobStatus_terminal:
  assumes "fst (GetJobByID env jobId w) = Inr job" "distinct (map ID (rows w))"
    "IsImmutableJobStatus (Status job)" "db_fault env DbUpdates = None"
  shows "fst (UpdateJobStatus env jobId errMessage jobStatus w) = None \<and>
    rows (snd (UpdateJobStatus env jobId errMessage jobStatus w)) =
      map (\<lambda>row. if ID row = jobId
                  then row\<lparr>Message := (if errMessage = [] then Message row else errMessage),
                           UpdatedAt := now env\<rparr>
                  else row) (rows w)"
proof -
  note g = GetJobByID_Inr[OF assms(1)]
  have u: "\<And>row. row \<in> set (rows w) \<Longrightarrow> ID row = jobId \<Longrightarrow> row = job"
    using find_unique[OF g(2) assms(2)] by blast
  show ?thesis
    using assms(3,4) u
    by (auto simp: UpdateJobStatus_def g(1) db_Updates_def updates_row_Message updates_row_same)
qed

text \<open>
  Claim C1, the amended statement on the example table: the succeeded job keeps its
  status and takes the new message.
\<close>

theorem UpdateJobStatus_terminal_witness:
  "fst (UpdateJobStatus env_ok ''job-r1-a'' ''late'' StatusJobRunning world1) = None \<and>
   rows (snd (UpdateJobStatus env_ok ''job-r1-a'' ''late'' StatusJobRunning world1)) =
     [job_done\<lparr>Message := ''late'', UpdatedAt := 100\<rparr>, job_run, job_abc]"
proof -
  have a: "fst (GetJobByID env_ok ''job-r1-a'' world1) = Inr job_done"
    by (simp add: example_defs GetJobByID_def)
  have b: "distinct (map ID (rows world1))" by (simp add: example_defs)
  have c: "IsImmutableJobStatus (Status job_done)" by (simp add: example_defs)
  have d: "db_fault env_ok DbUpdates = None" by (simp add: env_ok_def)
  show ?thesis
    using UpdateJobStatus_terminal[OF a b c d, of "''late''" StatusJobRunning]
    by (simp add: example_defs)
qed

text \<open>
  Claim C1 as stated fails: on the succeeded job of the example table, an update to
  running with the message \<open>late\<close> returns \<open>nil\<close> and overwrites the stored message.
\<close>

theorem UpdateJobStatus_terminal_counterexample:
  "rows world1 = [job_done, job_run, job_abc] \<and> ID job_done = ''job-r1-a'' \<and>
   IsImmutableJobStatus (Status job_done) \<and> Message job_done = ''finished'' \<and>
   fst (UpdateJobStatus env_ok ''job-r1-a'' ''late'' StatusJobRunning world1) = None \<and>
   map Message (rows (snd (UpdateJobStatus env_ok ''job-r1-a'' ''late'' StatusJobRunning world1)))
     = [''late'', [], []]"
  by (simp add: example_defs UpdateJobStatus_def GetJobByID_def db_Updates_def updates_row_def)

text \<open>
  Claim C7, amended. A successful \<open>UpdateJob\<close> whose requested status is not running
  leaves every \<open>ActivatedAt\<close> as it was; one whose requested status is running, on a job
  that is not terminal, stamps the job's \<open>ActivatedAt\<close> with the current time, whether or
  not it was stamped before.
\<close>

theorem UpdateJob_ActivatedAt:
  assumes "fst (GetJobByID env jobID w) = Inr job" "distinct (map ID (rows w))"
    "db_fault env DbSave = None" "\<forall>e. info \<noteq> Some (Inl e)" "RuntimeInfo job = None"
  shows "(status \<noteq> StatusJobRunning \<longrightarrow>
            map ActivatedAt (rows (snd (UpdateJob env jobID status info message w)))
              = map ActivatedAt (rows w)) \<and>
         (status = StatusJobRunning \<and> \<not> IsImmutableJobStatus (Status job) \<longrightarrow>
            map ActivatedAt (rows (snd (UpdateJob env jobID status info message w)))
              = map (\<lambda>row. if ID row = jobID then Some (now env) else ActivatedAt row) (rows w))"
proof -
  note g = GetJobByID_Inr[OF assms(1)]
  have u: "\<And>row. row \<in> set (rows w) \<Longrightarrow> ID row = jobID \<Longrightarrow> row = job"
    using find_unique[OF g(2) assms(2)] by blast
  show ?thesis
    using assms(3,4,5) u
    by (cases info)
       (auto simp: UpdateJob_def g(1) db_Save_def BeforeSave_def Let_def split: sum.splits)
qed

text \<open>
  Claim C7, the amended statement on the example table: a failed update of the running
  job keeps the activation times, a running update of the initial job stamps it.
\<close>

theorem UpdateJob_ActivatedAt_witness:
  "map ActivatedAt (rows (snd (UpdateJob env_ok ''job-r1-b'' StatusJobFailed None ''oom'' world1)))
     = [Some 20, Some 20, None] \<and>
   map ActivatedAt (rows (snd (UpdateJob env_ok ''job-abc-1'' StatusJobRunning None [] world1)))
     = [Some 20, Some 20, Some 100]"
proof -
  have a: "fst (GetJobByID env_ok ''job-r1-b'' world1) = Inr job_run"
    by (simp add: example_defs GetJobByID_def)
  have a': "fst (GetJobByID env_ok ''job-abc-1'' world1) = Inr job_abc"
    by (simp add: example_defs GetJobByID_def)
  have b: "distinct (map ID (rows world1))" by (simp add: example_defs)
  have c: "db_fault env_ok DbSave = None" by (simp add: env_ok_def)
  have d: "\<forall>e. (None :: (error + string) option) \<noteq> Some (Inl e)" by simp
  have e: "RuntimeInfo job_run = None" "RuntimeInfo job_abc = None" by (simp_all add: example_defs)
  show ?thesis
    using UpdateJob_ActivatedAt[OF a b c d e(1), of StatusJobFailed "''oom''"]
      UpdateJob_ActivatedAt[OF a' b c d e(2), of StatusJobRunning "[]"]
    by (simp add: example_defs)
qed

text \<open>
  Claim C7 as stated fails: the running job of the example table was activated at time
  20, and a repeated running update at time 100 moves its \<open>ActivatedAt\<close> to 100.
\<close>

theorem UpdateJob_ActivatedAt_counterexample:
  "rows world1 = [job_done, job_run, job_abc] \<and> ID job_run = ''job-r1-b'' \<and>
   Status job_run = StatusJobRunning \<and> ActivatedAt job_run = Some 20 \<and>
   UpdateJob env_ok ''job-r1-b'' StatusJobRunning None [] world1 =
     ((StatusJobRunning, None),
      world1\<lparr>rows := [job_done, job_run\<lparr>ActivatedAt := Some 100, UpdatedAt := 100\<rparr>, job_abc]\<rparr>)"
  by (simp add: example_defs UpdateJob_def GetJobByID_def db_Save_def BeforeSave_def)

section \<open>LIKE\<close>

lemma sql_like_percent: "sql_like ''%'' s"
  by (induction s) auto

lemma sql_like_plain_prefix:
  assumes "CHR ''%'' \<notin> set p" "CHR ''_'' \<notin> set p"
  shows "sql_like (p @ ''%'') s \<longleftrightarrow> (\<exists>t. s = p @ t)"
  using assms
proof (induction p arbitrary: s)
  case Nil
  then show ?case using sql_like_percent by simp
next
  case (Cons c p)
  then show ?case by (cases s) auto
qed

lemma GetJobsByRunID_plain:
  assumes "db_fault env DbFind = None" "CHR ''%'' \<notin> set runID" "CHR ''_'' \<notin> set runID"
  shows "GetJobsByRunID env runID [] w =
           (Inr (filter (\<lambda>j. \<exists>t. ID j = ''job-'' @ runID @ ''-'' @ t) (rows w)), w)"
proof -
  have "sql_like (''job-'' @ runID @ ''-%'') s \<longleftrightarrow> (\<exists>t. s = ''job-'' @ runID @ ''-'' @ t)" for s
    using sql_like_plain_prefix[of "''job-'' @ runID @ ''-''" s] assms(2,3) by simp
  then show ?thesis using assms(1) by (simp add: GetJobsByRunID_def)
qed

lemma GetJobsByRunID_exact:
  assumes "distinct (map ID (rows w))" "jobID \<noteq> []"
    "GetJobsByRunID env runID jobID w = (Inr js, w')"
  shows "length js \<le> 1 \<and> (\<forall>j \<in> set js. ID j = jobID)"
proof -
  have d: "distinct (map ID (filter P (rows w)))" for P
    using assms(1) by (simp add: distinct_map_filter)
  have js: "js = filter (\<lambda>j. sql_like (''job-'' @ runID @ ''-%'') (ID j) \<and> ID j = jobID) (rows w)"
    using assms(2,3) by (auto simp: GetJobsByRunID_def split: option.splits)
  have all: "\<forall>j \<in> set js. ID j = jobID" using js by auto
  have "distinct (map ID js)" using d js by simp
  moreover have "set (map ID js) \<subseteq> {jobID}" using all by auto
  ultimately have "length (map ID js) \<le> card {jobID}"
    by (metis card_mono distinct_card finite.emptyI finite.insertI)
  then show ?thesis using all by simp
qed

text \<open>
  Claim C9 at a failing input: the run ID \<open>a_c\<close> gives the pattern \<open>job-a_c-%\<close>, whose
  underscore matches any character, so the job \<open>job-abc-1\<close> is returned although its ID
  does not begin with \<open>job-a_c-\<close>. (By \<open>GetJobsByRunID_plain\<close> and
  \<open>GetJobsByRunID_exact\<close> the claim holds for run IDs without \<open>%\<close> and \<open>_\<close>.)
\<close>

theorem GetJobsByRunID_wildcard:
  "ID job_abc = ''job-abc-1'' \<and>
   GetJobsByRunID env_ok ''a_c'' [] world1 = (Inr [job_abc], world1) \<and>
   take 8 (ID job_abc) \<noteq> ''job-a_c-''"
  by (simp add: example_defs GetJobsByRunID_def)

section \<open>StopJob and DeleteJob\<close>

lemma log_Errorf_fields [simp]:
  "rows (log_Errorf f args w) = rows w"
  "next_pk (log_Errorf f args w) = next_pk w"
  "rt_calls (log_Errorf f args w) = rt_calls w"
  by (simp_all add: log_Errorf_def)

lemma getRuntimeByQueue_Inr:
  assumes "fst (getRuntimeByQueue env ctx q w) = Inr svc"
  shows "getRuntimeByQueue env ctx q w = (Inr svc, ctx, w)"
  using assms by (auto simp: getRuntimeByQueue_def split: sum.splits)

text \<open>
  Claim C2. When the job fetched by \<open>StopJob\<close> has a terminal status, the call
  returns the error saying that the job is already in that status and cannot be stopped,
  no runtime service receives a call, and the job table is left as it was.
\<close>

theorem StopJob_terminal:
  assumes "fst (GetJobByID env jobID w) = Inr job" "IsImmutableJobStatus (Status job)"
  shows "fst (StopJob env ctx jobID w) =
           Some (Errorf ''job %s status is already %s, and job cannot be stopped''
                   [ArgS jobID, ArgS (Status job)]) \<and>
         rt_calls (snd (snd (StopJob env ctx jobID w))) = rt_calls w \<and>
         rows (snd (snd (StopJob env ctx jobID w))) = rows w \<and>
         next_pk (snd (snd (StopJob env ctx jobID w))) = next_pk w"
  using assms(2)
  by (simp add: StopJob_def CheckPermission_def GetJobByID_Inr(1)[OF assms(1)])

text \<open>
  Claim C2 on the example table: stopping the succeeded job.
\<close>

theorem StopJob_terminal_witness:
  "fst (StopJob env_ok ctx0 ''job-r1-a'' world1) =
     Some (Errorf ''job %s status is already %s, and job cannot be stopped''
             [ArgS ''job-r1-a'', ArgS ''succeeded'']) \<and>
   rt_calls (snd (snd (StopJob env_ok ctx0 ''job-r1-a'' world1))) = [] \<and>
   rows (snd (snd (StopJob env_ok ctx0 ''job-r1-a'' world1))) = [job_done, job_run, job_abc] \<and>
   next_pk (snd (snd (StopJob env_ok ctx0 ''job-r1-a'' world1))) = 4"
proof -
  have a: "fst (GetJobByID env_ok ''job-r1-a'' world1) = Inr job_done"
    by (simp add: example_defs GetJobByID_def)
  have b: "IsImmutableJobStatus (Status job_done)" by (simp add: example_defs)
  show ?thesis
    using StopJob_terminal[OF a b, of ctx0] by (simp add: example_defs)
qed

lemma DeleteJob_rows_changed:
  assumes "rows (snd (snd (DeleteJob env ctx jobID w))) \<noteq> rows w"
  shows "\<exists>svc pfjob. rt_calls (snd (snd (DeleteJob env ctx jobID w)))
                        = rt_calls w @ [RtDeleteJob svc pfjob]
                      \<and> rt_DeleteJob env svc pfjob = None"
  using assms
  by (auto simp: DeleteJob_def CheckPermission_def GetJobByID_def getRuntimeByQueue_def
        models_DeleteJob_def Let_def
      split: option.splits sum.splits prod.splits if_splits)




text \<open>
  Claim C5, amended. \<open>DeleteJob\<close> does not look at the status: for a job whose status
  is terminal, when the lookup finds the job, the runtime of its queue is resolved and
  \<open>api.NewJobInfo\<close> builds the job-info view, it calls the runtime service's
  \<open>DeleteJob\<close> with that view; and when that call and the repository delete succeed it
  removes the record and returns no error.
\<close>

theorem DeleteJob_terminal:
  assumes "fst (GetJobByID env jobID w) = Inr job" "IsImmutableJobStatus (Status job)"
    "fst (getRuntimeByQueue env ctx (QueueID job) w) = Inr svc"
    "NewJobInfo env job = Inr pfjob"
  shows "rt_calls (snd (snd (DeleteJob env ctx jobID w))) = rt_calls w @ [RtDeleteJob svc pfjob] \<and>
         (rt_DeleteJob env svc pfjob = None \<and> db_fault env DbDelete = None \<longrightarrow>
            fst (DeleteJob env ctx jobID w) = None \<and>
            rows (snd (snd (DeleteJob env ctx jobID w))) = filter (\<lambda>j. ID j \<noteq> jobID) (rows w))"
  using assms(4)
  by (auto simp: DeleteJob_def CheckPermission_def GetJobByID_Inr(1)[OF assms(1)]
        getRuntimeByQueue_Inr[OF assms(3)] models_DeleteJob_def Let_def split: option.splits)

text \<open>
  Claim C5, the amended statement on the example table: deleting the succeeded job.
\<close>

theorem DeleteJob_terminal_witness:
  "rt_calls (snd (snd (DeleteJob env_ok ctx0 ''job-r1-a'' world1)))
     = [RtDeleteJob (RuntimeSvc ''c1'') pf_done] \<and>
   fst (DeleteJob env_ok ctx0 ''job-r1-a'' world1) = None \<and>
   rows (snd (snd (DeleteJob env_ok ctx0 ''job-r1-a'' world1))) = [job_run, job_abc]"
proof -
  have a: "fst (GetJobByID env_ok ''job-r1-a'' world1) = Inr job_done"
    by (simp add: example_defs pf_done_def GetJobByID_def)
  have b: "IsImmutableJobStatus (Status job_done)" by (simp add: example_defs pf_done_def)
  have c: "fst (getRuntimeByQueue env_ok ctx0 (QueueID job_done) world1) = Inr (RuntimeSvc ''c1'')"
    by (simp add: example_defs pf_done_def getRuntimeByQueue_def)
  have d: "NewJobInfo env_ok job_done = Inr pf_done" by (simp add: example_defs pf_done_def)
  have e: "rt_DeleteJob env_ok (RuntimeSvc ''c1'') pf_done = None" "db_fault env_ok DbDelete = None"
    by (simp_all add: example_defs pf_done_def)
  have r: "rows world1 = [job_done, job_run, job_abc]" "rt_calls world1 = []"
    by (simp_all add: world1_def)
  have i: "ID job_done = ''job-r1-a''" "ID job_run = ''job-r1-b''" "ID job_abc = ''job-abc-1''"
    by (simp_all add: example_defs pf_done_def)
  show ?thesis
    using DeleteJob_terminal[OF a b c d] e by (simp add: r i)
qed

text \<open>
  Claim C5 as stated fails: for the succeeded job of the example table \<open>DeleteJob\<close>
  calls the runtime service, removes the record and returns \<open>nil\<close>.
\<close>

theorem DeleteJob_terminal_counterexample:
  "rows world1 = [job_done, job_run, job_abc] \<and> ID job_done = ''job-r1-a'' \<and>
   Status job_done = StatusJobSucceeded \<and> IsImmutableJobStatus (Status job_done) \<and>
   DeleteJob env_ok ctx0 ''job-r1-a'' world1 =
     (None, ctx0,
      world1\<lparr>rows := [job_run, job_abc], rt_calls := [RtDeleteJob (RuntimeSvc ''c1'') pf_done]\<rparr>)"
  by (simp add: example_defs pf_done_def DeleteJob_def CheckPermission_def GetJobByID_def getRuntimeByQueue_def
        models_DeleteJob_def)

text \<open>
  Claim C6 at a failing input: in one environment the runtime delete fails, in the other
  the runtime delete succeeds and the repository delete fails with the same underlying
  error. \<open>DeleteJob\<close> returns the same error, unwrapped, and writes the same log line
  ("delete job ... from cluster failed") in both: the caller cannot tell the two apart.
\<close>

theorem DeleteJob_failures_conflated:
  "DeleteJob env_rt_fail ctx0 ''job-r1-b'' world1 =
     (Some (ExtError ''connection refused''), ctx0,
      world1\<lparr>rt_calls := [RtDeleteJob (RuntimeSvc ''c1'') pf_run],
             logs := [(''delete job %s from cluster failed, err: %v'',
                       [ArgS ''job-r1-b'', ArgE (ExtError ''connection refused'')])]\<rparr>) \<and>
   DeleteJob env_db_fail ctx0 ''job-r1-b'' world1 = DeleteJob env_rt_fail ctx0 ''job-r1-b'' world1 \<and>
   rt_DeleteJob env_db_fail (RuntimeSvc ''c1'') pf_run = None \<and>
   db_fault env_db_fail DbDelete = Some (ExtError ''connection refused'') \<and>
   db_fault env_rt_fail DbDelete = None"
  by (simp add: example_defs env_rt_fail_def env_db_fail_def pf_run_def DeleteJob_def CheckPermission_def GetJobByID_def getRuntimeByQueue_def
        models_DeleteJob_def log_Errorf_def)

section \<open>CreateJob\<close>

lemma models_CreateJob_None:
  assumes "models_CreateJob env job w = (None, w')"
  shows "\<exists>row. rows w' = rows w @ [row] \<and> ID row = ID job \<and>
           ExtensionTemplate row = ExtensionTemplate job \<and> Config row = Config job \<and>
           Status row = Status job"
  using assms
  by (auto simp: models_CreateJob_def BeforeSave_def
      split: option.splits sum.splits if_splits)

lemma models_CreateJob_Some:
  assumes "models_CreateJob env job w = (Some e, w')"
  shows "w' = w"
  using assms
  by (auto simp: models_CreateJob_def split: option.splits sum.splits if_splits)

lemma CreateJob_Inr:
  assumes "CreateJob env conf jobID tmpl w = (Inr jid, w')"
  shows "\<exists>row. rows w' = rows w @ [row] \<and> ID row = jid \<and> ExtensionTemplate row = tmpl \<and>
           Config row = snd (checkPriority conf) \<and> Status row = StatusJobInit"
proof -
  from assms obtain jobConf where cp: "checkPriority conf = (None, jobConf)"
    and v: "ValidateJob env conf = None"
    by (auto simp: CreateJob_def split: option.splits prod.splits)
  define jobInfo where "jobInfo =
     \<lparr>Pk = 0, ID = (if jobID = [] then GenerateID env (JobPrefix env) else jobID),
      UserName = conf_UserName jobConf,
      QueueID = conf_QueueID jobConf, Type = conf_Type env jobConf,
      Config = jobConf, RuntimeInfoJson = [], RuntimeInfo = None,
      Status = StatusJobInit, Message = [], CreatedAt = 0,
      ActivatedAt = None, UpdatedAt = 0, ExtensionTemplate = tmpl\<rparr>"
  from assms have m: "models_CreateJob env jobInfo w = (None, w')"
    and j: "jid = ID jobInfo"
    by (auto simp: CreateJob_def cp v Let_def jobInfo_def split: option.splits prod.splits)
  from models_CreateJob_None[OF m] show ?thesis
    by (auto simp: j cp jobInfo_def)
qed

lemma CreateJob_Inl:
  assumes "fst (CreateJob env conf jobID tmpl w) = Inl e"
  shows "rows (snd (CreateJob env conf jobID tmpl w)) = rows w"
    and "next_pk (snd (CreateJob env conf jobID tmpl w)) = next_pk w"
  using assms
  by (auto simp: CreateJob_def Let_def
      split: option.splits prod.splits dest: models_CreateJob_Some)

text \<open>
  Claim C4, amended. \<open>checkPriority\<close> sets an empty priority to the normal label and
  returns no error, so every record that \<open>CreateJob\<close> persists for a configuration with an
  empty priority carries the normal label. For a priority that is non-empty and none of
  low, normal, high, \<open>CreateJob\<close> fails and creates no record; when the configuration
  passes \<open>ValidateJob\<close>, the error is \<open>InvalidJobPriorityError\<close> with the offending
  value.
\<close>

theorem CreateJob_priority:
  "(conf_Priority conf = [] \<longrightarrow>
      checkPriority conf = (None, conf\<lparr>conf_Priority := EnvJobNormalPriority\<rparr>)) \<and>
   (conf_Priority conf = [] \<and> CreateJob env conf jobID tmpl w = (Inr jid, w') \<longrightarrow>
      (\<exists>row. rows w' = rows w @ [row] \<and> ID row = jid \<and>
             conf_Priority (Config row) = EnvJobNormalPriority)) \<and>
   (conf_Priority conf \<noteq> [] \<and> conf_Priority conf \<noteq> EnvJobLowPriority \<and>
    conf_Priority conf \<noteq> EnvJobNormalPriority \<and> conf_Priority conf \<noteq> EnvJobHighPriority \<longrightarrow>
      (\<exists>e. fst (CreateJob env conf jobID tmpl w) = Inl e) \<and>
      rows (snd (CreateJob env conf jobID tmpl w)) = rows w \<and>
      next_pk (snd (CreateJob env conf jobID tmpl w)) = next_pk w \<and>
      (ValidateJob env conf = None \<longrightarrow>
         fst (CreateJob env conf jobID tmpl w) = Inl (InvalidJobPriorityError (conf_Priority conf))))"
proof (intro conjI impI)
  assume "conf_Priority conf = []"
  then show "checkPriority conf = (None, conf\<lparr>conf_Priority := EnvJobNormalPriority\<rparr>)"
    by (simp add: checkPriority_def GetPriority_def SetPriority_def)
next
  assume a: "conf_Priority conf = [] \<and> CreateJob env conf jobID tmpl w = (Inr jid, w')"
  then have "snd (checkPriority conf) = conf\<lparr>conf_Priority := EnvJobNormalPriority\<rparr>"
    by (simp add: checkPriority_def GetPriority_def SetPriority_def)
  with CreateJob_Inr[of env conf jobID tmpl w jid w'] a
  show "\<exists>row. rows w' = rows w @ [row] \<and> ID row = jid \<and>
              conf_Priority (Config row) = EnvJobNormalPriority"
    by auto
next
  assume b: "conf_Priority conf \<noteq> [] \<and> conf_Priority conf \<noteq> EnvJobLowPriority \<and>
    conf_Priority conf \<noteq> EnvJobNormalPriority \<and> conf_Priority conf \<noteq> EnvJobHighPriority"
  then have cp: "checkPriority conf = (Some (InvalidJobPriorityError (conf_Priority conf)), conf)"
    by (simp add: checkPriority_def GetPriority_def)
  show e: "\<exists>e. fst (CreateJob env conf jobID tmpl w) = Inl e"
    by (simp add: CreateJob_def cp split: option.splits)
  then obtain e where "fst (CreateJob env conf jobID tmpl w) = Inl e" ..
  from CreateJob_Inl[OF this]
  show "rows (snd (CreateJob env conf jobID tmpl w)) = rows w"
    and "next_pk (snd (CreateJob env conf jobID tmpl w)) = next_pk w" .
  assume "ValidateJob env conf = None"
  then show "fst (CreateJob env conf jobID tmpl w) = Inl (InvalidJobPriorityError (conf_Priority conf))"
    by (simp add: CreateJob_def cp)
qed

text \<open>
  Claim C4 as stated fails: a configuration with priority \<open>urgent\<close> and no image is
  rejected by \<open>ValidateJob\<close>, which runs first, so the error is the validator's and not
  \<open>InvalidJobPriorityError\<close>.
\<close>

theorem CreateJob_priority_counterexample:
  "conf_Priority conf_bad = ''urgent'' \<and>
   CreateJob env_ok conf_bad [] [] world1 = (Inl (ExtError ''job image is empty''), world1) \<and>
   fst (CreateJob env_ok conf_bad [] [] world1) \<noteq> Inl (InvalidJobPriorityError ''urgent'')"
  by (simp add: example_defs conf_bad_def CreateJob_def)


text \<open>
  Claim C4, the amended statement on the example table: an empty priority is stored as
  normal, the priority \<open>urgent\<close> is refused and the table keeps its three rows.
\<close>

theorem CreateJob_priority_witness:
  "checkPriority conf_nopriority = (None, conf1) \<and>
   (\<exists>row. rows (snd (CreateJob env_ok conf_nopriority ''job-r2-a'' [] world1))
            = rows world1 @ [row] \<and> ID row = ''job-r2-a'' \<and>
          conf_Priority (Config row) = ''normal'') \<and>
   fst (CreateJob env_ok conf_urgent ''job-r2-a'' [] world1) = Inl (InvalidJobPriorityError ''urgent'') \<and>
   rows (snd (CreateJob env_ok conf_urgent ''job-r2-a'' [] world1)) = [job_done, job_run, job_abc]"
proof -
  have a: "conf_Priority conf_nopriority = []" by (simp add: example_defs conf_urgent_def conf_nopriority_def)
  have b: "CreateJob env_ok conf_nopriority ''job-r2-a'' [] world1 =
    (Inr ''job-r2-a'', snd (CreateJob env_ok conf_nopriority ''job-r2-a'' [] world1))"
    by (simp add: example_defs conf_urgent_def conf_nopriority_def CreateJob_def checkPriority_def GetPriority_def SetPriority_def
          models_CreateJob_def BeforeSave_def conf_Type_def Let_def)
  have c: "conf_Priority conf_urgent = ''urgent''" "ValidateJob env_ok conf_urgent = None"
    by (simp_all add: example_defs conf_urgent_def conf_nopriority_def)
  have n: "conf_nopriority\<lparr>conf_Priority := ''normal''\<rparr> = conf1"
    by (simp add: example_defs conf_urgent_def conf_nopriority_def)
  have r: "rows world1 = [job_done, job_run, job_abc]" by (simp add: world1_def)
  show ?thesis
    using CreateJob_priority[of conf_nopriority env_ok "''job-r2-a''" "[]" world1 "''job-r2-a''"
        "snd (CreateJob env_ok conf_nopriority ''job-r2-a'' [] world1)"]
      CreateJob_priority[of conf_urgent env_ok "''job-r2-a''" "[]" world1]
      a b c
    by (simp add: n r EnvJobLowPriority_def EnvJobNormalPriority_def EnvJobHighPriority_def)
qed

section \<open>CreateSingleJob\<close>

lemma patchSingleEnvs_rows:
  "rows (snd (patchSingleEnvs env conf request w)) = rows w"
  by (auto simp: patchSingleEnvs_def patchEnvs_def Let_def split: sum.splits prod.splits)

lemma patchSingleEnvs_rows':
  "patchSingleEnvs env conf request w = (r, w1) \<Longrightarrow> rows w1 = rows w"
  using patchSingleEnvs_rows[of env conf request w] by simp

lemma patchEnvs_conv:
  "patchEnvs (env\<lparr>JSONToYAML := conv\<rparr>) conf ci w = patchEnvs env conf ci w"
  by (simp add: patchEnvs_def Let_def split: sum.splits)

lemma patchSingleEnvs_conv:
  "patchSingleEnvs (env\<lparr>JSONToYAML := conv\<rparr>) conf request w = patchSingleEnvs env conf request w"
  by (simp add: patchSingleEnvs_def patchEnvs_conv Let_def split: sum.splits prod.splits)

lemma models_CreateJob_conv:
  "models_CreateJob (env\<lparr>JSONToYAML := conv\<rparr>) job w = models_CreateJob env job w"
  by (simp add: models_CreateJob_def split: sum.splits option.splits)

lemma CreateJob_conv:
  "CreateJob (env\<lparr>JSONToYAML := conv\<rparr>) conf jobID tmpl w = CreateJob env conf jobID tmpl w"
  by (simp add: CreateJob_def models_CreateJob_conv conf_Type_def Let_def
        split: option.splits prod.splits)

lemma CreateSingleJob_Inr:
  assumes "CreateSingleJob env request w = (Inr resp, w')"
  shows "\<exists>row. rows w' = rows w @ [row] \<and> ID row = resp_ID resp \<and>
           ExtensionTemplate row =
             (if js_ExtensionTemplate (req_JobSpec request) = [] then []
              else (case JSONToYAML env (js_ExtensionTemplate (req_JobSpec request)) of
                      Inr yaml \<Rightarrow> yaml | Inl e \<Rightarrow> []))"
  using assms
  by (auto simp: CreateSingleJob_def Let_def split: sum.splits prod.splits if_splits
        dest!: CreateJob_Inr patchSingleEnvs_rows')

text \<open>
  Claim C10. If the extension template is non-empty and \<open>JSONToYAML\<close> fails on it,
  \<open>CreateSingleJob\<close> returns that error, only logs it, and the job table is unchanged. If
  the template is empty, the result does not depend on the converter and a created record
  stores the empty template. If the conversion succeeds, a created record stores the
  converted text.
\<close>

theorem CreateSingleJob_extensionTemplate:
  "(js_ExtensionTemplate (req_JobSpec request) \<noteq> [] \<and>
    JSONToYAML env (js_ExtensionTemplate (req_JobSpec request)) = Inl e \<longrightarrow>
      CreateSingleJob env request w =
        (Inl e, log_Errorf ''Failed to parse extension template to yaml: %v'' [ArgE e] w) \<and>
      rows (snd (CreateSingleJob env request w)) = rows w) \<and>
   (js_ExtensionTemplate (req_JobSpec request) = [] \<longrightarrow>
      CreateSingleJob (env\<lparr>JSONToYAML := conv\<rparr>) request w = CreateSingleJob env request w \<and>
      (CreateSingleJob env request w = (Inr resp, w') \<longrightarrow>
         (\<exists>row. rows w' = rows w @ [row] \<and> ID row = resp_ID resp \<and> ExtensionTemplate row = []))) \<and>
   (js_ExtensionTemplate (req_JobSpec request) \<noteq> [] \<and>
    JSONToYAML env (js_ExtensionTemplate (req_JobSpec request)) = Inr yaml \<and>
    CreateSingleJob env request w = (Inr resp, w') \<longrightarrow>
      (\<exists>row. rows w' = rows w @ [row] \<and> ID row = resp_ID resp \<and> ExtensionTemplate row = yaml))"
proof (intro conjI impI)
  assume a: "js_ExtensionTemplate (req_JobSpec request) \<noteq> [] \<and>
    JSONToYAML env (js_ExtensionTemplate (req_JobSpec request)) = Inl e"
  then show 1: "CreateSingleJob env request w =
        (Inl e, log_Errorf ''Failed to parse extension template to yaml: %v'' [ArgE e] w)"
    by (simp add: CreateSingleJob_def Let_def)
  show "rows (snd (CreateSingleJob env request w)) = rows w"
    by (simp add: 1 log_Errorf_def)
next
  assume b: "js_ExtensionTemplate (req_JobSpec request) = []"
  show "CreateSingleJob (env\<lparr>JSONToYAML := conv\<rparr>) request w = CreateSingleJob env request w"
    using b
    by (simp add: CreateSingleJob_def patchSingleEnvs_conv CreateJob_conv Let_def
          cong: prod.case_cong sum.case_cong)
  assume "CreateSingleJob env request w = (Inr resp, w')"
  from CreateSingleJob_Inr[OF this] b
  show "\<exists>row. rows w' = rows w @ [row] \<and> ID row = resp_ID resp \<and> ExtensionTemplate row = []"
    by simp
next
  assume c: "js_ExtensionTemplate (req_JobSpec request) \<noteq> [] \<and>
    JSONToYAML env (js_ExtensionTemplate (req_JobSpec request)) = Inr yaml \<and>
    CreateSingleJob env request w = (Inr resp, w')"
  then have "CreateSingleJob env request w = (Inr resp, w')" by simp
  from CreateSingleJob_Inr[OF this] c
  show "\<exists>row. rows w' = rows w @ [row] \<and> ID row = resp_ID resp \<and> ExtensionTemplate row = yaml"
    by simp
qed

lemmas handler_defs = CreateSingleJob_def patchSingleEnvs_def patchEnvs_def CreateJob_def
  models_CreateJob_def BeforeSave_def conf_Type_def checkPriority_def GetPriority_def
  SetPriority_def SetEnv_def SetUserName_def SetQueueID_def SetClusterID_def SetNamespace_def
  SetFlavour_def SetFS_def Let_def log_Errorf_def

text \<open>
  Claim C10 on the example table: a template that does not convert, no template, and the
  template \<open>[1]\<close> stored as \<open>- 1\<close>.
\<close>

theorem CreateSingleJob_extensionTemplate_witness:
  "CreateSingleJob env_ok request_badtmpl world1 =
     (Inl (ExtError ''yaml: invalid''),
      world1\<lparr>logs := [(''Failed to parse extension template to yaml: %v'',
                        [ArgE (ExtError ''yaml: invalid'')])]\<rparr>) \<and>
   (\<exists>row. rows (snd (CreateSingleJob env_ok request_notmpl world1)) = rows world1 @ [row] \<and>
          ID row = ''job-000001'' \<and> ExtensionTemplate row = []) \<and>
   (\<exists>row. rows (snd (CreateSingleJob env_ok request1 world1)) = rows world1 @ [row] \<and>
          ID row = ''job-000001'' \<and> ExtensionTemplate row = ''- 1'')"
proof -
  have a: "js_ExtensionTemplate (req_JobSpec request_badtmpl) \<noteq> []"
    "JSONToYAML env_ok (js_ExtensionTemplate (req_JobSpec request_badtmpl))
       = Inl (ExtError ''yaml: invalid'')"
    by (simp_all add: example_defs request1_def request_badtmpl_def request_notmpl_def)
  have b: "js_ExtensionTemplate (req_JobSpec request_notmpl) = []"
    by (simp add: example_defs request1_def request_badtmpl_def request_notmpl_def)
  have b': "CreateSingleJob env_ok request_notmpl world1 =
     (Inr \<lparr>resp_ID = ''job-000001''\<rparr>, snd (CreateSingleJob env_ok request_notmpl world1))"
    by (simp add: example_defs request1_def request_badtmpl_def request_notmpl_def handler_defs)
  have c: "js_ExtensionTemplate (req_JobSpec request1) \<noteq> []"
    "JSONToYAML env_ok (js_ExtensionTemplate (req_JobSpec request1)) = Inr ''- 1''"
    by (simp_all add: example_defs request1_def request_badtmpl_def request_notmpl_def)
  have c': "CreateSingleJob env_ok request1 world1 =
     (Inr \<lparr>resp_ID = ''job-000001''\<rparr>, snd (CreateSingleJob env_ok request1 world1))"
    by (simp add: example_defs request1_def request_badtmpl_def request_notmpl_def handler_defs)
  have l: "log_Errorf f args world1 = world1\<lparr>logs := [(f, args)]\<rparr>" for f args
    by (simp add: log_Errorf_def world1_def)
  show ?thesis
    using CreateSingleJob_extensionTemplate[of request_badtmpl env_ok "ExtError ''yaml: invalid''" world1]
      CreateSingleJob_extensionTemplate[of request_notmpl env_ok _ world1 _
        "\<lparr>resp_ID = ''job-000001''\<rparr>" "snd (CreateSingleJob env_ok request_notmpl world1)"]
      CreateSingleJob_extensionTemplate[of request1 env_ok _ world1 _
        "\<lparr>resp_ID = ''job-000001''\<rparr>" "snd (CreateSingleJob env_ok request1 world1)" "''- 1''"]
      a b b' c c'
    by (simp add: l)
qed

end
